theory Spec2Isabelle
  imports
    Complex_Main
    "HOL-Library.Multiset"
    "HOL-Library.Sublist"
    "HOL-Library.Char_ord"
    "HOL-Library.List_Lexorder"
begin

section \<open>The vaccination dashboard script (tugas.py)\<close>

text \<open>
  The repository is one Python script built on pandas and streamlit. The script loads a
  CSV table, filters it by country and date, derives two views (\<open>clean_df\<close> and
  \<open>latest\<close>) and renders them. A data frame is modelled as the list of its rows, a
  missing cell (\<open>NaN\<close>, \<open>NaT\<close>) as \<open>None\<close>, and each pandas call of the script as the
  list function that computes the frame the call returns.
\<close>

subsection \<open>Data model\<close>

text \<open>
  A timestamp is an integer, its place on the time line; the script uses only the order
  of timestamps. The scenarios count days since 1970-01-01, so that 2021-01-01 is 18628.
  Numeric cells are \<open>float64\<close> in pandas; they are modelled as rationals, so rounding
  and infinities are outside the model.
\<close>

type_synonym date = int
type_synonym num = rat

text \<open>One row of the frame \<open>df\<close>, restricted to the six columns the script reads.\<close>

record row =
  country :: string
  date :: "date option"
  total_vaccinations :: "num option"
  people_vaccinated :: "num option"
  people_fully_vaccinated :: "num option"
  daily_vaccinations :: "num option"

text \<open>One row of a frame that has only the columns of \<open>num_cols\<close> (lines 72-77).\<close>

record numeric =
  num_total_vaccinations :: "num option"
  num_people_vaccinated :: "num option"
  num_people_fully_vaccinated :: "num option"
  num_daily_vaccinations :: "num option"

datatype py_error = IndexError | ValueError

subsection \<open>Loading (lines 18-28)\<close>

text \<open>
  What \<open>pd.read_csv\<close> returns for the file: the numeric columns are already numbers, the
  column \<open>date\<close> still holds the text of the cell.
\<close>

record csv_row =
  csv_country :: string
  csv_date :: string
  csv_total_vaccinations :: "num option"
  csv_people_vaccinated :: "num option"
  csv_people_fully_vaccinated :: "num option"
  csv_daily_vaccinations :: "num option"

text \<open>
  The file system as far as the script reads it: \<open>None\<close> when
  \<open>data_path.exists()\<close> is false for \<open>country_vaccinations.csv\<close> beside the script,
  and otherwise what \<open>pd.read_csv\<close> does on the file: it raises, or it returns a table.
\<close>

type_synonym file_system = "(py_error + csv_row list) option"

text \<open>
  How a call ends: it returns a value, it ends the run of the script with
  \<open>st.stop()\<close>, or it raises an exception that nothing catches.
\<close>

datatype 'a exec = Return 'a | Stop | Raise py_error

text \<open>
  What the page shows, in the order of the calls: the message of \<open>st.error\<close> (line 22),
  the page header (lines 33-41), the sidebar widgets (lines 46-57), the message of
  \<open>st.warning\<close> (line 68), one \<open>metric\<close> with its label and number, the charts and the
  table with the frame they show, the footer (lines 210-214). The captions of the
  sections and tabs are left out.
\<close>

datatype event =
    MissingFileError
  | Header
  | Sidebar
  | EmptyWarning
  | Metric string int
  | LineChart "row list"
  | BarChart "row list"
  | DescribeTable "numeric list"
  | BoxPlot "numeric list"
  | ScatterPlot "numeric list"
  | PieChart "(string \<times> num) list"
  | Footer

text \<open>
  \<open>pd.to_datetime\<close> is a parameter of the model: given the texts of a column it
  raises, or it returns the column of timestamps, one for each cell and \<open>NaT\<close> for a
  cell that holds none.
\<close>

type_synonym to_datetime = "string list \<Rightarrow> py_error + date option list"

text \<open>\<open>df["date"] = ...\<close> on one row: the row of the file with its date converted.\<close>

definition with_date :: "csv_row \<Rightarrow> date option \<Rightarrow> row" where
  "with_date c d =
     \<lparr>country = csv_country c, date = d,
      total_vaccinations = csv_total_vaccinations c,
      people_vaccinated = csv_people_vaccinated c,
      people_fully_vaccinated = csv_people_fully_vaccinated c,
      daily_vaccinations = csv_daily_vaccinations c\<rparr>"

definition load_data :: "to_datetime \<Rightarrow> file_system \<Rightarrow> event list \<times> row list exec" where
  "load_data td fs =
     (case fs of
        None \<Rightarrow> ([MissingFileError], Stop)
      | Some (Inl e) \<Rightarrow> ([], Raise e)
      | Some (Inr csv) \<Rightarrow>
          (case td (map csv_date csv) of
             Inl e \<Rightarrow> ([], Raise e)
           | Inr dates \<Rightarrow> ([], Return (map2 with_date csv dates))))"

text \<open>
  \<open>@st.cache_data\<close>: the process keeps what \<open>load_data\<close> returned and later runs of
  the script get that value without reading the file. A call that does not return
  stores nothing.
\<close>

type_synonym cache = "row list option"

definition cached_load_data ::
  "to_datetime \<Rightarrow> file_system \<Rightarrow> cache \<Rightarrow> cache \<times> event list \<times> row list exec" where
  "cached_load_data td fs cache =
     (case cache of
        Some df \<Rightarrow> (Some df, [], Return df)
      | None \<Rightarrow>
          (case load_data td fs of
             (ev, Return df) \<Rightarrow> (Some df, ev, Return df)
           | (ev, Stop) \<Rightarrow> (None, ev, Stop)
           | (ev, Raise e) \<Rightarrow> (None, ev, Raise e)))"

text \<open>
  An instance of \<open>to_datetime\<close> for the worked scenarios below. It gives what pandas
  gives on the columns that occur there, which hold the two ISO dates, the empty cell, and
  a cell that is no date; its value on any other text is not used.
\<close>

definition to_datetime_cell :: "string \<Rightarrow> py_error + date option" where
  "to_datetime_cell s =
     (if s = ''2021-01-01'' then Inr (Some 18628)
      else if s = ''2021-01-02'' then Inr (Some 18629)
      else if s = [] then Inr None
      else Inl ValueError)"

fun to_datetime_scenario :: to_datetime where
  "to_datetime_scenario [] = Inr []"
| "to_datetime_scenario (s # ss) =
     (case to_datetime_cell s of
        Inl e \<Rightarrow> Inl e
      | Inr d \<Rightarrow>
          (case to_datetime_scenario ss of Inl e \<Rightarrow> Inl e | Inr ds \<Rightarrow> Inr (d # ds)))"

subsection \<open>Filter (lines 62-65)\<close>

text \<open>Python's \<open>xs[i]\<close> for a non-negative literal index: out of range raises.\<close>

definition subscript :: "'a list \<Rightarrow> nat \<Rightarrow> py_error + 'a" where
  "subscript xs i = (if i < length xs then Inr (xs ! i) else Inl IndexError)"

text \<open>\<open>Series.isin(values)\<close> on one cell.\<close>

definition isin :: "string \<Rightarrow> string list \<Rightarrow> bool" where
  "isin c values = (c \<in> set values)"

text \<open>\<open>Series.between(left, right)\<close> on one cell, both ends inclusive; \<open>NaT\<close> is in no interval.\<close>

definition between :: "date option \<Rightarrow> date \<Rightarrow> date \<Rightarrow> bool" where
  "between d left right = (case d of None \<Rightarrow> False | Some x \<Rightarrow> left \<le> x \<and> x \<le> right)"

text \<open>
  \<open>filtered_df = df[df["country"].isin(countries) & df["date"].between(date_range[0], date_range[1])]\<close>.
  \<open>countries\<close> is the list the multiselect returns, \<open>date_range\<close> the tuple the date
  picker returns (it has fewer than two entries while the user is still choosing).
\<close>

definition filtered_df :: "row list \<Rightarrow> string list \<Rightarrow> date list \<Rightarrow> py_error + row list" where
  "filtered_df df countries date_range =
     (case subscript date_range 0 of
        Inl e \<Rightarrow> Inl e
      | Inr left \<Rightarrow>
          (case subscript date_range 1 of
             Inl e \<Rightarrow> Inl e
           | Inr right \<Rightarrow>
               Inr (filter (\<lambda>r. isin (country r) countries \<and> between (date r) left right) df)))"

subsection \<open>Clean numeric view (lines 72-78)\<close>

text \<open>\<open>frame[num_cols]\<close>: the projection of a row onto the four numeric columns.\<close>

definition num_cols :: "row \<Rightarrow> numeric" where
  "num_cols r =
     \<lparr>num_total_vaccinations = total_vaccinations r,
      num_people_vaccinated = people_vaccinated r,
      num_people_fully_vaccinated = people_fully_vaccinated r,
      num_daily_vaccinations = daily_vaccinations r\<rparr>"

text \<open>\<open>DataFrame.dropna()\<close> keeps a row when none of its cells is missing.\<close>

definition notna_row :: "numeric \<Rightarrow> bool" where
  "notna_row n =
     (num_total_vaccinations n \<noteq> None \<and> num_people_vaccinated n \<noteq> None \<and>
      num_people_fully_vaccinated n \<noteq> None \<and> num_daily_vaccinations n \<noteq> None)"

definition dropna :: "numeric list \<Rightarrow> numeric list" where
  "dropna frame = filter notna_row frame"

definition clean_df :: "row list \<Rightarrow> numeric list" where
  "clean_df filtered = dropna (map num_cols filtered)"

subsection \<open>Latest row per country (lines 81-86)\<close>

text \<open>
  \<open>sort_values("date")\<close> sorts ascending with \<open>NaT\<close> last. The script passes no
  \<open>kind\<close>, so pandas sorts with its default \<open>quicksort\<close>, which pandas documents as
  not stable. The sort is therefore a parameter \<open>sort_values\<close> of the model, and
  \<open>sorts_by_date\<close> is all that is known of it: it returns the rows of its argument,
  in ascending order of date.
\<close>

definition date_le :: "date option \<Rightarrow> date option \<Rightarrow> bool" where
  "date_le a b =
     (case b of None \<Rightarrow> True | Some y \<Rightarrow> (case a of None \<Rightarrow> False | Some x \<Rightarrow> x \<le> y))"

definition sorts_by_date :: "(row list \<Rightarrow> row list) \<Rightarrow> bool" where
  "sorts_by_date sort_values =
     (\<forall>frame. mset (sort_values frame) = mset frame \<and>
        sorted_wrt (\<lambda>a b. date_le (date a) (date b)) (sort_values frame))"

text \<open>
  One sort that meets \<open>sorts_by_date\<close>: the stable insertion sort (what
  \<open>kind="stable"\<close> computes). A row goes in front of the first row that is not earlier.
\<close>

fun insert_by_date :: "row \<Rightarrow> row list \<Rightarrow> row list" where
  "insert_by_date r [] = [r]"
| "insert_by_date r (x # xs) =
     (if date_le (date r) (date x) then r # x # xs else x # insert_by_date r xs)"

fun stable_sort_values :: "row list \<Rightarrow> row list" where
  "stable_sort_values [] = []"
| "stable_sort_values (r # rs) = insert_by_date r (stable_sort_values rs)"


text \<open>
  \<open>groupby("country").last()\<close>. pandas numbers the groups by the sorted distinct keys and
  runs one pass over the rows of the frame: for the group of the row and for each column,
  a cell that is not missing overwrites the group's result cell, a missing cell leaves it.
  So \<open>last\<close> is the last value that is not missing, column by column. The results start
  as missing cells (\<open>nan_row\<close>). \<open>reset_index()\<close> then turns the group key into the
  column \<open>country\<close> again, which a result row of the model already holds.
\<close>

definition last_valid :: "'a option \<Rightarrow> 'a option \<Rightarrow> 'a option" where
  "last_valid res v = (case v of None \<Rightarrow> res | Some x \<Rightarrow> Some x)"

definition nan_row :: "string \<Rightarrow> row" where
  "nan_row k =
     \<lparr>country = k, date = None, total_vaccinations = None, people_vaccinated = None,
      people_fully_vaccinated = None, daily_vaccinations = None\<rparr>"

definition group_last_row :: "row \<Rightarrow> row \<Rightarrow> row" where
  "group_last_row res r =
     \<lparr>country = country res,
      date = last_valid (date res) (date r),
      total_vaccinations = last_valid (total_vaccinations res) (total_vaccinations r),
      people_vaccinated = last_valid (people_vaccinated res) (people_vaccinated r),
      people_fully_vaccinated = last_valid (people_fully_vaccinated res) (people_fully_vaccinated r),
      daily_vaccinations = last_valid (daily_vaccinations res) (daily_vaccinations r)\<rparr>"

definition group_last :: "(string \<rightharpoonup> row) \<Rightarrow> row \<Rightarrow> (string \<rightharpoonup> row)" where
  "group_last res r =
     res(country r \<mapsto>
       group_last_row (case res (country r) of None \<Rightarrow> nan_row (country r) | Some a \<Rightarrow> a) r)"

definition group_keys :: "row list \<Rightarrow> string list" where
  "group_keys frame = sort (remdups (map country frame))"

definition groupby_last :: "row list \<Rightarrow> row list" where
  "groupby_last frame = List.map_filter (foldl group_last Map.empty frame) (group_keys frame)"

definition latest :: "(row list \<Rightarrow> row list) \<Rightarrow> row list \<Rightarrow> row list" where
  "latest sort_values filtered = groupby_last (sort_values filtered)"

text \<open>
  The derivation of \<open>latest\<close> in the words of the specification, for comparison: sort
  ascending by date with a stable sort, group by country, take the whole last row of each
  group.
\<close>

definition latest_spec :: "row list \<Rightarrow> row list" where
  "latest_spec filtered =
     map (\<lambda>k. last (filter (\<lambda>r. country r = k) (stable_sort_values filtered)))
       (sort (remdups (map country filtered)))"

text \<open>
  The same with the last value that is not missing taken column by column, and the sort
  left open.
\<close>

definition last_notna :: "(row \<Rightarrow> 'a option) \<Rightarrow> row list \<Rightarrow> 'a option" where
  "last_notna col g =
     (case filter (\<lambda>v. v \<noteq> None) (map col g) of [] \<Rightarrow> None | v # vs \<Rightarrow> last (v # vs))"

definition last_notna_row :: "string \<Rightarrow> row list \<Rightarrow> row" where
  "last_notna_row k g =
     \<lparr>country = k,
      date = last_notna date g,
      total_vaccinations = last_notna total_vaccinations g,
      people_vaccinated = last_notna people_vaccinated g,
      people_fully_vaccinated = last_notna people_fully_vaccinated g,
      daily_vaccinations = last_notna daily_vaccinations g\<rparr>"

definition latest_columnwise :: "(row list \<Rightarrow> row list) \<Rightarrow> row list \<Rightarrow> row list" where
  "latest_columnwise sort_values filtered =
     map (\<lambda>k. last_notna_row k (filter (\<lambda>r. country r = k) (sort_values filtered)))
       (sort (remdups (map country filtered)))"

definition notna_cells :: "row \<Rightarrow> bool" where
  "notna_cells r =
     (date r \<noteq> None \<and> total_vaccinations r \<noteq> None \<and> people_vaccinated r \<noteq> None \<and>
      people_fully_vaccinated r \<noteq> None \<and> daily_vaccinations r \<noteq> None)"

subsection \<open>Statistics (lines 94-97 and 155-158)\<close>

text \<open>The reductions of a pandas column skip missing cells (\<open>skipna\<close>).\<close>

definition skipna :: "'a option list \<Rightarrow> 'a list" where
  "skipna col = List.map_filter (\<lambda>v. v) col"

text \<open>\<open>Series.sum()\<close>: the sum of no value is 0.\<close>

definition series_sum :: "num option list \<Rightarrow> num" where
  "series_sum col = sum_list (skipna col)"

text \<open>\<open>Series.mean()\<close>, \<open>median()\<close>, \<open>max()\<close>, \<open>min()\<close>: \<open>NaN\<close> when there is no value.\<close>

definition series_mean :: "num option list \<Rightarrow> num option" where
  "series_mean col =
     (case skipna col of [] \<Rightarrow> None | v # vs \<Rightarrow> Some (sum_list (v # vs) / of_nat (length (v # vs))))"

definition series_median :: "num option list \<Rightarrow> num option" where
  "series_median col =
     (let vs = sort (skipna col); n = length vs in
      if n = 0 then None
      else if odd n then Some (vs ! (n div 2))
      else Some ((vs ! (n div 2 - 1) + vs ! (n div 2)) / 2))"

definition series_max :: "num option list \<Rightarrow> num option" where
  "series_max col = (case skipna col of [] \<Rightarrow> None | v # vs \<Rightarrow> Some (fold max vs v))"

definition series_min :: "num option list \<Rightarrow> num option" where
  "series_min col = (case skipna col of [] \<Rightarrow> None | v # vs \<Rightarrow> Some (fold min vs v))"

text \<open>Python's \<open>int(x)\<close> on a float: towards zero, and \<open>ValueError\<close> on \<open>NaN\<close>.\<close>

definition trunc :: "num \<Rightarrow> int" where
  "trunc v = (if 0 \<le> v then \<lfloor>v\<rfloor> else \<lceil>v\<rceil>)"

definition py_int :: "num option \<Rightarrow> py_error + int" where
  "py_int x = (case x of None \<Rightarrow> Inl ValueError | Some v \<Rightarrow> Inr (trunc v))"

text \<open>\<open>Series.nunique()\<close> of the column \<open>country\<close>.\<close>

definition nunique :: "string list \<Rightarrow> nat" where
  "nunique col = length (remdups col)"

text \<open>
  A row of \<open>c.metric(label, int(value))\<close> statements: each converts its value and
  shows it; the first conversion that raises ends the run.
\<close>

fun show_metrics :: "(string \<times> num option) list \<Rightarrow> event list \<times> py_error option" where
  "show_metrics [] = ([], None)"
| "show_metrics ((label, v) # rest) =
     (case py_int v of
        Inl e \<Rightarrow> ([], Some e)
      | Inr n \<Rightarrow> (case show_metrics rest of (ev, r) \<Rightarrow> (Metric label n # ev, r)))"

text \<open>\<open>pie_df = latest[["country", "people_fully_vaccinated"]].dropna()\<close> (line 197).\<close>

definition pie_df :: "row list \<Rightarrow> (string \<times> num) list" where
  "pie_df lat =
     List.map_filter (\<lambda>r. map_option (\<lambda>v. (country r, v)) (people_fully_vaccinated r)) lat"

subsection \<open>One run of the script\<close>

text \<open>
  The state a run ends in: what the page shows, how the run ended, and the value of
  each of the script's four frames (\<open>None\<close> for a variable that was never assigned).
\<close>

datatype outcome = Finished | Stopped | Uncaught py_error

record run =
  events :: "event list"
  outcome :: outcome
  var_df :: "row list option"
  var_filtered_df :: "row list option"
  var_clean_df :: "numeric list option"
  var_latest :: "row list option"

text \<open>
  Lines 33-214, with \<open>df\<close> loaded. \<open>countries\<close> and \<open>date_range\<close> are what the two
  sidebar widgets return in this run; a run starts from these values, and how streamlit
  produces them is outside the model (on a dataset without any date \<open>st.date_input\<close>
  raises and there are no such values). The charts are drawn by plotly; an event records the
  frame that is handed over. The computation follows the script: the filter, the guard on
  the empty view (lines 67-69), \<open>clean_df\<close>, \<open>latest\<close>, the four counters, the tabs in
  order, the footer.
\<close>

definition render :: "(row list \<Rightarrow> row list) \<Rightarrow> row list \<Rightarrow> string list \<Rightarrow> date list \<Rightarrow> run" where
  "render sort_values df countries date_range =
     (case filtered_df df countries date_range of
        Inl e \<Rightarrow>
          \<lparr>events = [Header, Sidebar], outcome = Uncaught e, var_df = Some df,
           var_filtered_df = None, var_clean_df = None, var_latest = None\<rparr>
      | Inr filtered \<Rightarrow>
          if filtered = [] then
            \<lparr>events = [Header, Sidebar, EmptyWarning], outcome = Stopped, var_df = Some df,
             var_filtered_df = Some filtered, var_clean_df = None, var_latest = None\<rparr>
          else
            let clean = clean_df filtered;
                lat = latest sort_values filtered;
                kpi =
                  [Metric ''Jumlah Negara'' (int (nunique (map country filtered))),
                   Metric ''Total Vaksinasi'' (trunc (series_sum (map total_vaccinations lat))),
                   Metric ''Sudah Vaksin'' (trunc (series_sum (map people_vaccinated lat))),
                   Metric ''Vaksin Lengkap'' (trunc (series_sum (map people_fully_vaccinated lat)))];
                daily = map num_daily_vaccinations clean;
                shown = [Header, Sidebar] @ kpi @
                  [LineChart filtered, BarChart lat, DescribeTable clean]
            in
              (case show_metrics
                      [(''Mean Harian'', series_mean daily),
                       (''Median Harian'', series_median daily),
                       (''Maksimum Harian'', series_max daily),
                       (''Minimum Harian'', series_min daily)] of
                 (ms, Some e) \<Rightarrow>
                   \<lparr>events = shown @ ms, outcome = Uncaught e, var_df = Some df,
                    var_filtered_df = Some filtered, var_clean_df = Some clean,
                    var_latest = Some lat\<rparr>
               | (ms, None) \<Rightarrow>
                   \<lparr>events = shown @ ms @
                      [BoxPlot clean, ScatterPlot clean, PieChart (pie_df lat), Footer],
                    outcome = Finished, var_df = Some df,
                    var_filtered_df = Some filtered, var_clean_df = Some clean,
                    var_latest = Some lat\<rparr>))"

text \<open>The whole script, run once in a process whose cache is \<open>cache\<close>.\<close>

definition script ::
  "(row list \<Rightarrow> row list) \<Rightarrow> to_datetime \<Rightarrow> file_system \<Rightarrow> string list \<Rightarrow> date list \<Rightarrow>
     cache \<Rightarrow> cache \<times> run" where
  "script sort_values td fs countries date_range cache =
     (case cached_load_data td fs cache of
        (cache', ev, Return df) \<Rightarrow>
          (cache', (render sort_values df countries date_range)
                     \<lparr>events := ev @ events (render sort_values df countries date_range)\<rparr>)
      | (cache', ev, Stop) \<Rightarrow>
          (cache', \<lparr>events = ev, outcome = Stopped, var_df = None,
                    var_filtered_df = None, var_clean_df = None, var_latest = None\<rparr>)
      | (cache', ev, Raise e) \<Rightarrow>
          (cache', \<lparr>events = ev, outcome = Uncaught e, var_df = None,
                    var_filtered_df = None, var_clean_df = None, var_latest = None\<rparr>))"

subsection \<open>The scenario of the specification\<close>

definition scenario_df :: "row list" where
  "scenario_df =
     [\<lparr>country = ''A'', date = Some 18628, total_vaccinations = Some 100,
       people_vaccinated = Some 80, people_fully_vaccinated = Some 20,
       daily_vaccinations = Some 10\<rparr>,
      \<lparr>country = ''A'', date = Some 18629, total_vaccinations = Some 150,
       people_vaccinated = Some 90, people_fully_vaccinated = Some 25,
       daily_vaccinations = Some 50\<rparr>,
      \<lparr>country = ''B'', date = Some 18628, total_vaccinations = Some 200,
       people_vaccinated = Some 150, people_fully_vaccinated = Some 50,
       daily_vaccinations = Some 50\<rparr>]"

text \<open>The same three rows as \<open>pd.read_csv\<close> returns them.\<close>

definition scenario_csv :: "csv_row list" where
  "scenario_csv =
     [\<lparr>csv_country = ''A'', csv_date = ''2021-01-01'', csv_total_vaccinations = Some 100,
       csv_people_vaccinated = Some 80, csv_people_fully_vaccinated = Some 20,
       csv_daily_vaccinations = Some 10\<rparr>,
      \<lparr>csv_country = ''A'', csv_date = ''2021-01-02'', csv_total_vaccinations = Some 150,
       csv_people_vaccinated = Some 90, csv_people_fully_vaccinated = Some 25,
       csv_daily_vaccinations = Some 50\<rparr>,
      \<lparr>csv_country = ''B'', csv_date = ''2021-01-01'', csv_total_vaccinations = Some 200,
       csv_people_vaccinated = Some 150, csv_people_fully_vaccinated = Some 50,
       csv_daily_vaccinations = Some 50\<rparr>]"

text \<open>A dataset in which every row has a missing numeric cell.\<close>

definition incomplete_df :: "row list" where
  "incomplete_df =
     [\<lparr>country = ''A'', date = Some 18628, total_vaccinations = Some 100,
       people_vaccinated = None, people_fully_vaccinated = Some 20,
       daily_vaccinations = Some 10\<rparr>,
      \<lparr>country = ''B'', date = Some 18629, total_vaccinations = Some 150,
       people_vaccinated = Some 90, people_fully_vaccinated = Some 25,
       daily_vaccinations = None\<rparr>]"

text \<open>
  A filtered view whose last row for the country has missing cells, to compare
  \<open>latest\<close> with \<open>latest_spec\<close>.
\<close>

definition gap_view :: "row list" where
  "gap_view =
     [\<lparr>country = ''A'', date = Some 18628, total_vaccinations = Some 100,
       people_vaccinated = Some 80, people_fully_vaccinated = Some 20,
       daily_vaccinations = Some 10\<rparr>,
      \<lparr>country = ''A'', date = Some 18629, total_vaccinations = None,
       people_vaccinated = Some 90, people_fully_vaccinated = None,
       daily_vaccinations = Some 50\<rparr>]"

section \<open>Properties\<close>

subsection \<open>Filter\<close>

lemma filtered_df_pair:
  "filtered_df df countries [start, stop] =
     Inr (filter (\<lambda>r. isin (country r) countries \<and> between (date r) start stop) df)"
  by (simp add: filtered_df_def subscript_def)

lemma between_iff: "between d lo hi \<longleftrightarrow> (\<exists>x. d = Some x \<and> lo \<le> x \<and> x \<le> hi)"
  by (cases d) (simp_all add: between_def)

text \<open>
  C1. For every dataset, every selection of countries and every interval \<open>[start, stop]\<close>
  the filter returns a frame, and that frame holds exactly the rows of the dataset whose
  country is selected and whose date lies in the interval, both ends included: the same
  rows with the same multiplicities, in the order of the dataset.
\<close>

theorem filtered_df_exact:
  "\<exists>view. filtered_df df countries [start, stop] = Inr view \<and>
     set view = {r. r \<in> set df \<and> country r \<in> set countries \<and>
                    (\<exists>d. date r = Some d \<and> start \<le> d \<and> d \<le> stop)} \<and>
     mset view = filter_mset (\<lambda>r. country r \<in> set countries \<and>
                    (\<exists>d. date r = Some d \<and> start \<le> d \<and> d \<le> stop)) (mset df) \<and>
     subseq view df"
proof -
  let ?P = "\<lambda>r. isin (country r) countries \<and> between (date r) start stop"
  let ?Q = "\<lambda>r. country r \<in> set countries \<and> (\<exists>d. date r = Some d \<and> start \<le> d \<and> d \<le> stop)"
  have PQ: "?P = ?Q"
    by (simp add: isin_def between_iff)
  have "filtered_df df countries [start, stop] = Inr (filter ?Q df)"
    using filtered_df_pair [of df countries start stop] by (simp only: PQ)
  moreover have "set (filter ?Q df) = {r. r \<in> set df \<and> ?Q r}"
    by auto
  moreover have "mset (filter ?Q df) = filter_mset ?Q (mset df)"
    by simp
  moreover have "subseq (filter ?Q df) df"
    by simp
  ultimately show ?thesis
    by blast
qed

subsection \<open>Clean numeric view\<close>

text \<open>
  C4. The clean view is the projection of the filtered view onto the four numeric
  columns without the rows that have a missing cell in any of the four: it is the
  projection of exactly the rows of the filtered view that have all four cells. Every row
  of the clean view has all four cells, every projected row with all four cells is kept
  (with its multiplicity and in order), and the clean view has at most as many rows as the
  filtered view. Each of its four columns holds the values of the column of the same name
  in those rows of the filtered view.
\<close>

theorem clean_df_rowwise:
  "clean_df filtered =
     map num_cols
       (filter (\<lambda>r. total_vaccinations r \<noteq> None \<and> people_vaccinated r \<noteq> None \<and>
          people_fully_vaccinated r \<noteq> None \<and> daily_vaccinations r \<noteq> None) filtered) \<and>
   list_all (\<lambda>n. num_total_vaccinations n \<noteq> None \<and> num_people_vaccinated n \<noteq> None \<and>
       num_people_fully_vaccinated n \<noteq> None \<and> num_daily_vaccinations n \<noteq> None)
     (clean_df filtered) \<and>
   mset (clean_df filtered) =
     filter_mset (\<lambda>n. num_total_vaccinations n \<noteq> None \<and> num_people_vaccinated n \<noteq> None \<and>
       num_people_fully_vaccinated n \<noteq> None \<and> num_daily_vaccinations n \<noteq> None)
       (image_mset num_cols (mset filtered)) \<and>
   subseq (clean_df filtered) (map num_cols filtered) \<and>
   length (clean_df filtered) \<le> length filtered \<and>
   map num_total_vaccinations (clean_df filtered) =
     map total_vaccinations
       (filter (\<lambda>r. total_vaccinations r \<noteq> None \<and> people_vaccinated r \<noteq> None \<and>
          people_fully_vaccinated r \<noteq> None \<and> daily_vaccinations r \<noteq> None) filtered) \<and>
   map num_people_vaccinated (clean_df filtered) =
     map people_vaccinated
       (filter (\<lambda>r. total_vaccinations r \<noteq> None \<and> people_vaccinated r \<noteq> None \<and>
          people_fully_vaccinated r \<noteq> None \<and> daily_vaccinations r \<noteq> None) filtered) \<and>
   map num_people_fully_vaccinated (clean_df filtered) =
     map people_fully_vaccinated
       (filter (\<lambda>r. total_vaccinations r \<noteq> None \<and> people_vaccinated r \<noteq> None \<and>
          people_fully_vaccinated r \<noteq> None \<and> daily_vaccinations r \<noteq> None) filtered) \<and>
   map num_daily_vaccinations (clean_df filtered) =
     map daily_vaccinations
       (filter (\<lambda>r. total_vaccinations r \<noteq> None \<and> people_vaccinated r \<noteq> None \<and>
          people_fully_vaccinated r \<noteq> None \<and> daily_vaccinations r \<noteq> None) filtered)"
proof -
  have a: "list_all notna_row (clean_df filtered)"
    by (simp add: clean_df_def dropna_def list_all_iff)
  have b: "mset (clean_df filtered) = filter_mset notna_row (image_mset num_cols (mset filtered))"
    by (simp add: clean_df_def dropna_def)
  have c: "subseq (clean_df filtered) (map num_cols filtered)"
    by (simp add: clean_df_def dropna_def)
  have "length (clean_df filtered) \<le> length (map num_cols filtered)"
    unfolding clean_df_def dropna_def by (rule length_filter_le)
  then have d: "length (clean_df filtered) \<le> length filtered"
    by simp
  have e: "notna_row = (\<lambda>n. num_total_vaccinations n \<noteq> None \<and> num_people_vaccinated n \<noteq> None \<and>
       num_people_fully_vaccinated n \<noteq> None \<and> num_daily_vaccinations n \<noteq> None)"
    by (rule ext) (simp add: notna_row_def)
  have f: "clean_df filtered =
     map num_cols
       (filter (\<lambda>r. total_vaccinations r \<noteq> None \<and> people_vaccinated r \<noteq> None \<and>
          people_fully_vaccinated r \<noteq> None \<and> daily_vaccinations r \<noteq> None) filtered)"
    by (simp add: clean_df_def dropna_def filter_map comp_def notna_row_def num_cols_def)
  let ?full = "filter (\<lambda>r. total_vaccinations r \<noteq> None \<and> people_vaccinated r \<noteq> None \<and>
          people_fully_vaccinated r \<noteq> None \<and> daily_vaccinations r \<noteq> None) filtered"
  have g1: "map num_total_vaccinations (clean_df filtered) = map total_vaccinations ?full"
    unfolding f by (simp add: num_cols_def)
  have g2: "map num_people_vaccinated (clean_df filtered) = map people_vaccinated ?full"
    unfolding f by (simp add: num_cols_def)
  have g3: "map num_people_fully_vaccinated (clean_df filtered) =
      map people_fully_vaccinated ?full"
    unfolding f by (simp add: num_cols_def)
  have g4: "map num_daily_vaccinations (clean_df filtered) = map daily_vaccinations ?full"
    unfolding f by (simp add: num_cols_def)
  from a b c d f g1 g2 g3 g4 show ?thesis
    unfolding e by blast
qed

subsection \<open>The stable sort is a sort by date\<close>

lemma mset_insert_by_date: "mset (insert_by_date r xs) = add_mset r (mset xs)"
  by (induction xs) auto

lemma mset_stable: "mset (stable_sort_values xs) = mset xs"
  by (induction xs) (auto simp: mset_insert_by_date)

lemma date_le_refl: "date_le a a"
  by (simp add: date_le_def split: option.splits)

lemma date_le_total: "date_le a b \<or> date_le b a"
  by (auto simp: date_le_def split: option.splits)

lemma date_le_trans: "date_le a b \<Longrightarrow> date_le b c \<Longrightarrow> date_le a c"
  by (auto simp: date_le_def split: option.splits)

lemma set_insert_by_date: "set (insert_by_date r xs) = insert r (set xs)"
  by (induction xs) auto

lemma sorted_insert_by_date:
  "sorted_wrt (\<lambda>a b. date_le (date a) (date b)) xs \<Longrightarrow>
   sorted_wrt (\<lambda>a b. date_le (date a) (date b)) (insert_by_date r xs)"
proof (induction xs)
  case Nil
  then show ?case by simp
next
  case (Cons x xs)
  show ?case
  proof (cases "date_le (date r) (date x)")
    case True
    with Cons.prems show ?thesis
      by (auto intro: date_le_trans)
  next
    case False
    then have "date_le (date x) (date r)"
      using date_le_total by blast
    with False Cons show ?thesis
      by (auto simp: set_insert_by_date)
  qed
qed

lemma sorts_by_date_stable: "sorts_by_date stable_sort_values"
  unfolding sorts_by_date_def
proof (intro allI conjI)
  fix frame
  show "mset (stable_sort_values frame) = mset frame" by (rule mset_stable)
  show "sorted_wrt (\<lambda>a b. date_le (date a) (date b)) (stable_sort_values frame)"
    by (induction frame) (simp_all add: sorted_insert_by_date)
qed

text \<open>The sort is stable: rows of equal date keep their order.\<close>

lemma filter_insert_by_date:
  "filter (\<lambda>x. date x = d) (insert_by_date r xs) =
     (if date r = d then r # filter (\<lambda>x. date x = d) xs else filter (\<lambda>x. date x = d) xs)"
  by (induction xs) (auto simp add: date_le_refl)

lemma stable_sort_values_stable:
  "filter (\<lambda>x. date x = d) (stable_sort_values xs) = filter (\<lambda>x. date x = d) xs"
  by (induction xs) (simp_all add: filter_insert_by_date)

subsection \<open>What the pass of \<open>groupby_last\<close> computes\<close>

lemma last_valid_simps: "last_valid a None = a" "last_valid a (Some x) = Some x"
  by (simp_all add: last_valid_def)

lemma group_last_apply:
  "group_last res r k =
     (if k = country r
      then Some (group_last_row (case res k of None \<Rightarrow> nan_row k | Some a \<Rightarrow> a) r)
      else res k)"
  by (auto simp add: group_last_def)

lemma foldl_last_valid: "foldl last_valid a vs = (case filter (\<lambda>v. v \<noteq> None) vs of [] \<Rightarrow> a | v # ws \<Rightarrow> last (v # ws))"
proof (induction vs arbitrary: a)
  case Nil
  then show ?case by simp
next
  case (Cons v vs)
  show ?case
  proof (cases v)
    case None
    then show ?thesis by (simp add: Cons.IH last_valid_simps)
  next
    case (Some x)
    then show ?thesis
      by (simp add: Cons.IH last_valid_simps split: list.splits)
  qed
qed

lemma foldl_group_last_row:
  "foldl group_last_row acc g =
     \<lparr>country = country acc,
      date = foldl last_valid (date acc) (map date g),
      total_vaccinations = foldl last_valid (total_vaccinations acc) (map total_vaccinations g),
      people_vaccinated = foldl last_valid (people_vaccinated acc) (map people_vaccinated g),
      people_fully_vaccinated = foldl last_valid (people_fully_vaccinated acc) (map people_fully_vaccinated g),
      daily_vaccinations = foldl last_valid (daily_vaccinations acc) (map daily_vaccinations g)\<rparr>"
  by (induction g arbitrary: acc) (simp_all add: group_last_row_def)

lemma foldl_nan_row: "foldl group_last_row (nan_row k) g = last_notna_row k g"
  by (simp add: foldl_group_last_row foldl_last_valid nan_row_def last_notna_row_def last_notna_def)

lemma foldl_group_last:
  "foldl group_last res frame k =
     (if k \<in> country ` set frame
      then Some (foldl group_last_row (case res k of None \<Rightarrow> nan_row k | Some a \<Rightarrow> a)
                   (filter (\<lambda>r. country r = k) frame))
      else res k)"
proof (induction frame arbitrary: res)
  case Nil
  then show ?case by simp
next
  case (Cons r frame)
  have "foldl group_last res (r # frame) k = foldl group_last (group_last res r) frame k"
    by simp
  also have "\<dots> =
     (if k \<in> country ` set frame
      then Some (foldl group_last_row
                   (case group_last res r k of None \<Rightarrow> nan_row k | Some a \<Rightarrow> a)
                   (filter (\<lambda>r. country r = k) frame))
      else group_last res r k)"
    by (rule Cons.IH)
  also have "\<dots> =
     (if k \<in> country ` set (r # frame)
      then Some (foldl group_last_row (case res k of None \<Rightarrow> nan_row k | Some a \<Rightarrow> a)
                   (filter (\<lambda>r. country r = k) (r # frame)))
      else res k)"
  proof (cases "k \<in> country ` set frame")
    case True
    then show ?thesis
      by (cases "country r = k") (simp_all add: group_last_apply)
  next
    case False
    then have "filter (\<lambda>r. country r = k) frame = []"
      by (auto simp add: filter_empty_conv)
    with False show ?thesis
      by (cases "country r = k") (auto simp add: group_last_apply)
  qed
  finally show ?case .
qed

lemma groupby_last_columnwise:
  "groupby_last frame =
     map (\<lambda>k. last_notna_row k (filter (\<lambda>r. country r = k) frame)) (group_keys frame)"
proof -
  have "List.map_filter (foldl group_last Map.empty frame) ks =
        map (\<lambda>k. last_notna_row k (filter (\<lambda>r. country r = k) frame)) ks"
    if "set ks \<subseteq> country ` set frame" for ks
    using that
    by (induction ks) (simp_all add: List.map_filter_simps foldl_group_last foldl_nan_row)
  moreover have "set (group_keys frame) \<subseteq> country ` set frame"
    by (simp add: group_keys_def)
  ultimately show ?thesis
    by (simp add: groupby_last_def)
qed

lemma group_keys_mset: "mset ys = mset xs \<Longrightarrow> group_keys ys = group_keys xs"
proof -
  assume "mset ys = mset xs"
  then have "set ys = set xs" by (rule mset_eq_setD)
  then have "set (remdups (map country ys)) = set (remdups (map country xs))" by simp
  then show ?thesis
    unfolding group_keys_def
    by (intro sorted_distinct_set_unique) simp_all
qed

lemma latest_eq_columnwise:
  "mset (sort_values filtered) = mset filtered \<Longrightarrow>
   latest sort_values filtered = latest_columnwise sort_values filtered"
  using group_keys_mset [of "sort_values filtered" filtered]
  by (simp add: latest_def latest_columnwise_def groupby_last_columnwise group_keys_def)

subsection \<open>The latest row of a country\<close>

lemma filtered_df_dates:
  assumes "filtered_df df countries date_range = Inr filtered" and "r \<in> set filtered"
  shows "\<exists>d. date r = Some d"
proof -
  from assms(1) obtain lo hi where
    "filtered = filter (\<lambda>r. isin (country r) countries \<and> between (date r) lo hi) df"
    by (auto simp add: filtered_df_def split: sum.splits)
  with assms(2) have "between (date r) lo hi"
    by simp
  then show ?thesis
    by (auto simp add: between_iff)
qed

lemma last_notna_last:
  assumes "g \<noteq> []" and "col (last g) \<noteq> None"
  shows "last_notna col g = col (last g)"
proof -
  from assms(1) have g: "g = butlast g @ [last g]"
    by simp
  have "filter (\<lambda>v. v \<noteq> None) (map col g) =
        filter (\<lambda>v. v \<noteq> None) (map col (butlast g)) @ [col (last g)]"
    using assms(2) by (subst g) simp
  moreover have "(case xs of [] \<Rightarrow> None | v # vs \<Rightarrow> last (v # vs)) = last xs"
    if "xs \<noteq> []" for xs :: "'a option list"
    using that by (cases xs) simp_all
  ultimately show ?thesis
    by (simp add: last_notna_def)
qed

lemma filter_map_key:
  assumes "distinct ks" and "c \<in> set ks" and "\<And>k. f (h k) = k"
  shows "filter (\<lambda>x. f x = c) (map h ks) = [h c]"
  using assms(1,2)
proof (induction ks)
  case Nil
  then show ?case by simp
next
  case (Cons k ks)
  show ?case
  proof (cases "k = c")
    case True
    with Cons.prems have "c \<notin> set ks" by simp
    then have "filter (\<lambda>x. f x = c) (map h ks) = []"
      by (auto simp add: filter_empty_conv assms(3))
    with True show ?thesis by (simp add: assms(3))
  next
    case False
    with Cons show ?thesis by (simp add: assms(3))
  qed
qed

lemma country_last_notna_row: "country (last_notna_row k g) = k"
  by (simp add: last_notna_row_def)

lemma date_last_notna_row: "date (last_notna_row k g) = last_notna date g"
  by (simp add: last_notna_row_def)

lemma sorted_wrt_last:
  assumes "sorted_wrt P g" and "x \<in> set g" and "\<And>y. P y y"
  shows "P x (last g)"
  using assms(1,2)
proof (induction g)
  case Nil
  then show ?case by simp
next
  case (Cons a g)
  show ?case
  proof (cases "g = []")
    case True
    with Cons.prems show ?thesis by (simp add: assms(3))
  next
    case False
    then have l: "last g \<in> set g" by simp
    from Cons.prems False show ?thesis
      using Cons.IH l by auto
  qed
qed

text \<open>
  C2. For every filtered view, every sort by date and every country \<open>c\<close> that occurs in
  the view, \<open>latest\<close> has exactly one row for \<open>c\<close>, and the date of that row is the
  greatest date among the rows of \<open>c\<close> in the view.
\<close>

theorem latest_one_row_max_date:
  assumes srt: "sorts_by_date sort_values"
    and flt: "filtered_df df countries date_range = Inr filtered"
    and c: "c \<in> country ` set filtered"
  shows "\<exists>r. filter (\<lambda>x. country x = c) (latest sort_values filtered) = [r] \<and>
             date r = Some (Max {d. \<exists>x \<in> set filtered. country x = c \<and> date x = Some d})"
proof -
  let ?s = "sort_values filtered"
  let ?g = "filter (\<lambda>r. country r = c) ?s"
  let ?D = "{d. \<exists>x \<in> set filtered. country x = c \<and> date x = Some d}"
  from srt have ms: "mset ?s = mset filtered"
    and so: "sorted_wrt (\<lambda>a b. date_le (date a) (date b)) ?s"
    by (simp_all add: sorts_by_date_def)
  from ms have set_s: "set ?s = set filtered"
    by (rule mset_eq_setD)
  have set_g: "set ?g = {x \<in> set filtered. country x = c}"
    using set_s by auto
  from c have ne: "?g \<noteq> []"
    using set_g by (auto simp add: filter_empty_conv set_s)
  then have lg: "last ?g \<in> set ?g"
    by (rule last_in_set)
  then have lf: "last ?g \<in> set filtered" and lc: "country (last ?g) = c"
    using set_g by auto
  from filtered_df_dates [OF flt lf] obtain m where m: "date (last ?g) = Some m"
    by blast
  have keys: "distinct (sort (remdups (map country filtered)))"
    "c \<in> set (sort (remdups (map country filtered)))"
    using c by simp_all
  have "latest sort_values filtered = latest_columnwise sort_values filtered"
    using ms by (rule latest_eq_columnwise)
  then have one: "filter (\<lambda>x. country x = c) (latest sort_values filtered) = [last_notna_row c ?g]"
    unfolding latest_columnwise_def
    using filter_map_key [OF keys, of country "\<lambda>k. last_notna_row k (filter (\<lambda>r. country r = k) ?s)"]
    by (simp add: country_last_notna_row)
  have dt: "date (last_notna_row c ?g) = Some m"
    using last_notna_last [OF ne, of date] m by (simp add: date_last_notna_row)
  have sg: "sorted_wrt (\<lambda>a b. date_le (date a) (date b)) ?g"
    using so by (rule sorted_wrt_filter)
  have fin: "finite ?D"
  proof -
    have "?D \<subseteq> (\<lambda>x. the (date x)) ` set filtered"
      by force
    then show ?thesis
      by (rule finite_subset) simp
  qed
  have mem: "m \<in> ?D"
    using lf lc m by blast
  have le: "d \<le> m" if "d \<in> ?D" for d
  proof -
    from that obtain x where x: "x \<in> set filtered" "country x = c" "date x = Some d"
      by blast
    then have "x \<in> set ?g"
      using set_g by simp
    from sorted_wrt_last [OF sg this] have "date_le (date x) (date (last ?g))"
      by (simp add: date_le_refl)
    with x(3) m show ?thesis
      by (simp add: date_le_def)
  qed
  have "Max ?D = m"
    using fin mem le by (intro Max_eqI) auto
  with one dt show ?thesis
    by simp
qed

theorem latest_one_row_max_date_witness:
  "sorts_by_date stable_sort_values \<and>
   filtered_df scenario_df [''A''] [18628, 18629] = Inr (take 2 scenario_df) \<and>
   ''A'' \<in> country ` set (take 2 scenario_df) \<and>
   (\<exists>r. filter (\<lambda>x. country x = ''A'') (latest stable_sort_values (take 2 scenario_df)) = [r] \<and>
        date r = Some 18629)"
proof -
  have a: "sorts_by_date stable_sort_values"
    by (rule sorts_by_date_stable)
  have b: "filtered_df scenario_df [''A''] [18628, 18629] = Inr (take 2 scenario_df)"
    by (simp add: filtered_df_pair scenario_df_def isin_def between_def)
  have c: "''A'' \<in> country ` set (take 2 scenario_df)"
    by (simp add: scenario_df_def)
  have d: "{d. \<exists>x \<in> set (take 2 scenario_df). country x = ''A'' \<and> date x = Some d} = {18628, 18629}"
    by (auto simp add: scenario_df_def)
  from latest_one_row_max_date [OF a b c] d a b c show ?thesis
    by simp
qed

subsection \<open>\<open>latest\<close> against the reference algorithm\<close>

text \<open>
  C3, as stated, fails: on a view of two rows of one country, where the later row has no
  \<open>total_vaccinations\<close> and no \<open>people_fully_vaccinated\<close>, \<open>latest\<close> takes these two
  values from the earlier row and the rest from the later row. Its row is no row of the
  view, and it differs from the last row that the reference algorithm takes.
\<close>

theorem latest_whole_row_counterexample:
  "filtered_df gap_view [''A''] [18628, 18629] = Inr gap_view \<and>
   latest stable_sort_values gap_view =
     [\<lparr>country = ''A'', date = Some 18629, total_vaccinations = Some 100,
       people_vaccinated = Some 90, people_fully_vaccinated = Some 20,
       daily_vaccinations = Some 50\<rparr>] \<and>
   latest_spec gap_view =
     [\<lparr>country = ''A'', date = Some 18629, total_vaccinations = None,
       people_vaccinated = Some 90, people_fully_vaccinated = None,
       daily_vaccinations = Some 50\<rparr>] \<and>
   latest stable_sort_values gap_view \<noteq> latest_spec gap_view \<and>
   set (latest stable_sort_values gap_view) \<inter> set gap_view = {}"
proof -
  have a: "filtered_df gap_view [''A''] [18628, 18629] = Inr gap_view"
    by (simp add: filtered_df_pair gap_view_def isin_def between_def)
  have b: "stable_sort_values gap_view = gap_view"
    by (simp add: gap_view_def date_le_def)
  have c: "latest stable_sort_values gap_view =
     [\<lparr>country = ''A'', date = Some 18629, total_vaccinations = Some 100,
       people_vaccinated = Some 90, people_fully_vaccinated = Some 20,
       daily_vaccinations = Some 50\<rparr>]"
    unfolding latest_def b
    by (simp add: gap_view_def groupby_last_def group_keys_def group_last_apply
      group_last_row_def last_valid_simps nan_row_def List.map_filter_simps)
  have d: "latest_spec gap_view =
     [\<lparr>country = ''A'', date = Some 18629, total_vaccinations = None,
       people_vaccinated = Some 90, people_fully_vaccinated = None,
       daily_vaccinations = Some 50\<rparr>]"
    unfolding latest_spec_def b
    by (simp add: gap_view_def)
  have e: "latest stable_sort_values gap_view \<noteq> latest_spec gap_view"
    unfolding c d by simp
  have f: "set (latest stable_sort_values gap_view) \<inter> set gap_view = {}"
    unfolding c by (simp add: gap_view_def)
  from a c d e f show ?thesis
    by blast
qed

lemma last_notna_row_whole:
  assumes "g \<noteq> []" and "notna_cells (last g)" and "country (last g) = k"
  shows "last_notna_row k g = last g"
  using assms(2,3)
  by (simp add: last_notna_row_def notna_cells_def last_notna_last [OF assms(1)])

lemma latest_spec_complete:
  assumes "list_all notna_cells filtered"
  shows "latest stable_sort_values filtered = latest_spec filtered"
proof -
  let ?g = "\<lambda>k. filter (\<lambda>r. country r = k) (stable_sort_values filtered)"
  have ms: "mset (stable_sort_values filtered) = mset filtered"
    by (rule mset_stable)
  then have st: "set (stable_sort_values filtered) = set filtered"
    by (rule mset_eq_setD)
  have "last_notna_row k (?g k) = last (?g k)"
    if "k \<in> set (sort (remdups (map country filtered)))" for k
  proof -
    from that st have ne: "?g k \<noteq> []"
      by (auto simp add: filter_empty_conv)
    then have l: "last (?g k) \<in> set (?g k)"
      by (rule last_in_set)
    then have "last (?g k) \<in> set filtered"
      using st by simp
    with assms have "notna_cells (last (?g k))"
      by (simp add: list_all_iff)
    moreover from l have "country (last (?g k)) = k"
      by simp
    ultimately show ?thesis
      using ne by (simp add: last_notna_row_whole)
  qed
  then have "latest_columnwise stable_sort_values filtered = latest_spec filtered"
    by (simp add: latest_columnwise_def latest_spec_def)
  with latest_eq_columnwise [of stable_sort_values filtered] ms show ?thesis
    by simp
qed

text \<open>
  C3, as amended. For every sort by date, \<open>latest\<close> is: sort the view ascending by
  date (rows of equal date in the order the sort leaves them), group by country, the groups
  in ascending order of country, and take for each column the last value of the group that
  is not missing. Where the last row of a group has no missing cell, the row of
  \<open>latest\<close> for that country is that whole row. On a view without a missing cell and
  with the stable sort, \<open>latest\<close> is the reference algorithm of the specification.
\<close>

theorem latest_is_columnwise:
  assumes "sorts_by_date sort_values"
  shows "latest sort_values filtered = latest_columnwise sort_values filtered \<and>
         (\<forall>k \<in> country ` set filtered.
            notna_cells (last (filter (\<lambda>r. country r = k) (sort_values filtered))) \<longrightarrow>
            filter (\<lambda>x. country x = k) (latest sort_values filtered) =
              [last (filter (\<lambda>r. country r = k) (sort_values filtered))]) \<and>
         (list_all notna_cells filtered \<longrightarrow>
            latest stable_sort_values filtered = latest_spec filtered)"
proof (intro conjI ballI impI)
  from assms have ms: "mset (sort_values filtered) = mset filtered"
    by (simp add: sorts_by_date_def)
  then show eq: "latest sort_values filtered = latest_columnwise sort_values filtered"
    by (rule latest_eq_columnwise)
  fix k
  let ?g = "\<lambda>k. filter (\<lambda>r. country r = k) (sort_values filtered)"
  assume k: "k \<in> country ` set filtered" and full: "notna_cells (last (?g k))"
  from ms have "set (sort_values filtered) = set filtered"
    by (rule mset_eq_setD)
  with k have ne: "?g k \<noteq> []"
    by (auto simp add: filter_empty_conv)
  then have "last (?g k) \<in> set (?g k)"
    by (rule last_in_set)
  then have ck: "country (last (?g k)) = k"
    by simp
  have keys: "distinct (sort (remdups (map country filtered)))"
    "k \<in> set (sort (remdups (map country filtered)))"
    using k by simp_all
  have "filter (\<lambda>x. country x = k) (latest sort_values filtered) = [last_notna_row k (?g k)]"
    unfolding eq latest_columnwise_def
    using filter_map_key [OF keys, of country "\<lambda>k. last_notna_row k (?g k)"]
    by (simp add: country_last_notna_row)
  then show "filter (\<lambda>x. country x = k) (latest sort_values filtered) = [last (?g k)]"
    by (simp add: last_notna_row_whole [OF ne full ck])
next
  assume "list_all notna_cells filtered"
  then show "latest stable_sort_values filtered = latest_spec filtered"
    by (rule latest_spec_complete)
qed

theorem latest_is_columnwise_witness:
  "sorts_by_date stable_sort_values \<and>
   latest stable_sort_values (rev scenario_df) =
     latest_columnwise stable_sort_values (rev scenario_df) \<and>
   ''B'' \<in> country ` set (rev scenario_df) \<and>
   notna_cells (last (filter (\<lambda>r. country r = ''B'') (stable_sort_values (rev scenario_df)))) \<and>
   filter (\<lambda>x. country x = ''B'') (latest stable_sort_values (rev scenario_df)) = [scenario_df ! 2]"
proof -
  have a: "sorts_by_date stable_sort_values"
    by (rule sorts_by_date_stable)
  have s: "stable_sort_values (rev scenario_df) = [scenario_df ! 2, scenario_df ! 0, scenario_df ! 1]"
    by (simp add: scenario_df_def date_le_def)
  have l: "last (filter (\<lambda>r. country r = ''B'') (stable_sort_values (rev scenario_df))) = scenario_df ! 2"
    unfolding s by (simp add: scenario_df_def)
  have b: "''B'' \<in> country ` set (rev scenario_df)"
    by (simp add: scenario_df_def)
  have c: "notna_cells (scenario_df ! 2)"
    by (simp add: scenario_df_def notna_cells_def)
  note t = latest_is_columnwise [OF a, of "rev scenario_df"]
  from t have e: "latest stable_sort_values (rev scenario_df) =
      latest_columnwise stable_sort_values (rev scenario_df)"
    by (rule conjunct1)
  from t b have "notna_cells (last (filter (\<lambda>r. country r = ''B'') (stable_sort_values (rev scenario_df)))) \<longrightarrow>
      filter (\<lambda>x. country x = ''B'') (latest stable_sort_values (rev scenario_df)) =
        [last (filter (\<lambda>r. country r = ''B'') (stable_sort_values (rev scenario_df)))]"
    by blast
  then have f: "filter (\<lambda>x. country x = ''B'') (latest stable_sort_values (rev scenario_df)) =
        [scenario_df ! 2]"
    unfolding l using c by blast
  from c have c': "notna_cells (last (filter (\<lambda>r. country r = ''B'') (stable_sort_values (rev scenario_df))))"
    unfolding l .
  from a e b c' f show ?thesis
    by blast
qed

subsection \<open>The guard on the empty view\<close>

lemma show_metrics_events:
  "e \<in> set (fst (show_metrics ms)) \<Longrightarrow> \<exists>label n. e = Metric label n"
proof (induction ms arbitrary: e)
  case Nil
  then show ?case by simp
next
  case (Cons m ms)
  obtain label v where m: "m = (label, v)"
    by (cases m)
  from Cons.prems Cons.IH show ?case
    unfolding m by (auto split: sum.splits prod.splits)
qed

lemma show_metrics_no_warning: "show_metrics ms = (ev, r) \<Longrightarrow> EmptyWarning \<notin> set ev"
  using show_metrics_events [of EmptyWarning ms] by auto

lemma render_empty:
  "filtered_df df countries date_range = Inr [] \<Longrightarrow>
   render sort_values df countries date_range =
     \<lparr>events = [Header, Sidebar, EmptyWarning], outcome = Stopped, var_df = Some df,
      var_filtered_df = Some [], var_clean_df = None, var_latest = None\<rparr>"
  by (simp add: render_def)

lemma render_nonempty:
  assumes "filtered_df df countries date_range = Inr filtered" and "filtered \<noteq> []"
  shows "EmptyWarning \<notin> set (events (render sort_values df countries date_range))"
    and "outcome (render sort_values df countries date_range) \<noteq> Stopped"
    and "var_filtered_df (render sort_values df countries date_range) = Some filtered"
    and "var_clean_df (render sort_values df countries date_range) = Some (clean_df filtered)"
    and "var_latest (render sort_values df countries date_range) = Some (latest sort_values filtered)"
  using assms
  by (auto simp add: render_def Let_def simp del: show_metrics.simps
      split: prod.splits option.splits dest: show_metrics_no_warning)

text \<open>
  C5. When the filtered view is empty the run shows the warning and stops: after the
  page header and the sidebar widgets, which come before the filter, nothing but the
  warning is shown, and neither \<open>clean_df\<close> nor \<open>latest\<close> is computed. When the
  filtered view is not empty there is no warning and no stop, and both views are computed.
\<close>

theorem empty_view_stops:
  assumes "filtered_df df countries date_range = Inr filtered"
  shows "(filtered = [] \<longrightarrow>
            render sort_values df countries date_range =
              \<lparr>events = [Header, Sidebar, EmptyWarning], outcome = Stopped, var_df = Some df,
               var_filtered_df = Some [], var_clean_df = None, var_latest = None\<rparr>) \<and>
         (filtered \<noteq> [] \<longrightarrow>
            EmptyWarning \<notin> set (events (render sort_values df countries date_range)) \<and>
            outcome (render sort_values df countries date_range) \<noteq> Stopped \<and>
            var_clean_df (render sort_values df countries date_range) = Some (clean_df filtered) \<and>
            var_latest (render sort_values df countries date_range) =
              Some (latest sort_values filtered))"
  using render_empty [of df countries date_range sort_values]
    render_nonempty [OF assms, of sort_values] assms
  by blast

theorem empty_view_stops_witness:
  "filtered_df scenario_df [''C''] [18628, 18629] = Inr [] \<and>
   render stable_sort_values scenario_df [''C''] [18628, 18629] =
     \<lparr>events = [Header, Sidebar, EmptyWarning], outcome = Stopped, var_df = Some scenario_df,
      var_filtered_df = Some [], var_clean_df = None, var_latest = None\<rparr> \<and>
   filtered_df scenario_df [''B''] [18628, 18629] = Inr [scenario_df ! 2] \<and>
   EmptyWarning \<notin> set (events (render stable_sort_values scenario_df [''B''] [18628, 18629])) \<and>
   outcome (render stable_sort_values scenario_df [''B''] [18628, 18629]) \<noteq> Stopped"
proof -
  have a: "filtered_df scenario_df [''C''] [18628, 18629] = Inr []"
    by (simp add: filtered_df_pair scenario_df_def isin_def between_def)
  have b: "filtered_df scenario_df [''B''] [18628, 18629] = Inr [scenario_df ! 2]"
    by (simp add: filtered_df_pair scenario_df_def isin_def between_def)
  from empty_view_stops [OF a, of stable_sort_values]
    empty_view_stops [OF b, of stable_sort_values] a b
  show ?thesis
    by simp
qed

subsection \<open>The loader\<close>

lemma cached_load_data_hit: "cached_load_data td fs (Some df) = (Some df, [], Return df)"
  by (simp add: cached_load_data_def)

lemma script_loaded:
  "script sort_values td fs countries date_range (Some df) =
     (Some df, render sort_values df countries date_range)"
  by (simp add: script_def cached_load_data_hit)


lemma show_metrics_no_missing_file:
  "show_metrics ms = (ev, r) \<Longrightarrow> MissingFileError \<notin> set ev"
  using show_metrics_events [of MissingFileError ms] by auto

lemma render_no_missing_file:
  "MissingFileError \<notin> set (events (render sort_values df countries date_range))"
  by (auto simp add: render_def Let_def simp del: show_metrics.simps
      split: sum.splits prod.splits option.splits dest: show_metrics_no_missing_file)

lemma with_date_columns:
  assumes "length dates = length csv"
  shows "length (map2 with_date csv dates) = length csv"
    and "map date (map2 with_date csv dates) = dates"
    and "map country (map2 with_date csv dates) = map csv_country csv"
    and "map total_vaccinations (map2 with_date csv dates) = map csv_total_vaccinations csv"
    and "map people_vaccinated (map2 with_date csv dates) = map csv_people_vaccinated csv"
    and "map people_fully_vaccinated (map2 with_date csv dates) =
           map csv_people_fully_vaccinated csv"
    and "map daily_vaccinations (map2 with_date csv dates) = map csv_daily_vaccinations csv"
  using assms
  by (induction csv dates rule: list_induct2'; simp add: with_date_def)+

lemma script_cold:
  "script sort_values td fs countries date_range None =
     (case load_data td fs of
        (ev, Return df) \<Rightarrow>
          (Some df, (render sort_values df countries date_range)
                      \<lparr>events := ev @ events (render sort_values df countries date_range)\<rparr>)
      | (ev, Stop) \<Rightarrow>
          (None, \<lparr>events = ev, outcome = Stopped, var_df = None,
                   var_filtered_df = None, var_clean_df = None, var_latest = None\<rparr>)
      | (ev, Raise e) \<Rightarrow>
          (None, \<lparr>events = ev, outcome = Uncaught e, var_df = None,
                   var_filtered_df = None, var_clean_df = None, var_latest = None\<rparr>))"
  by (simp add: script_def cached_load_data_def split: prod.splits exec.splits)

text \<open>
  C6, as stated, fails in both directions. The file is absent and the loader does not
  fail: the process has loaded the dataset before, the loader returns the cached frame
  and the run finishes without the missing-file message. The file is present and the
  loader does not return the dataset: its one date cell is no date and \<open>to_datetime\<close>
  raises.
\<close>

theorem load_data_cached_counterexample:
  "cached_load_data to_datetime_scenario None (Some scenario_df) =
     (Some scenario_df, [], Return scenario_df) \<and>
   outcome (snd (script stable_sort_values to_datetime_scenario None [''A'']
     [18628, 18629] (Some scenario_df))) = Finished \<and>
   MissingFileError \<notin> set (events (snd (script stable_sort_values to_datetime_scenario None
     [''A''] [18628, 18629] (Some scenario_df)))) \<and>
   cached_load_data to_datetime_scenario
     (Some (Inr [\<lparr>csv_country = ''A'', csv_date = ''not a date'',
                   csv_total_vaccinations = Some 100, csv_people_vaccinated = Some 80,
                   csv_people_fully_vaccinated = Some 20,
                   csv_daily_vaccinations = Some 10\<rparr>])) None = (None, [], Raise ValueError)"
proof -
  have a: "cached_load_data to_datetime_scenario None (Some scenario_df) =
     (Some scenario_df, [], Return scenario_df)"
    by (rule cached_load_data_hit)
  have b: "outcome (render stable_sort_values scenario_df [''A''] [18628, 18629]) = Finished"
    by (simp add: render_def filtered_df_pair scenario_df_def isin_def between_def Let_def
        clean_df_def dropna_def notna_row_def num_cols_def series_mean_def series_median_def
        series_max_def series_min_def skipna_def py_int_def)
  have d: "cached_load_data to_datetime_scenario
     (Some (Inr [\<lparr>csv_country = ''A'', csv_date = ''not a date'',
                   csv_total_vaccinations = Some 100, csv_people_vaccinated = Some 80,
                   csv_people_fully_vaccinated = Some 20,
                   csv_daily_vaccinations = Some 10\<rparr>])) None = (None, [], Raise ValueError)"
    by (simp add: cached_load_data_def load_data_def to_datetime_cell_def)
  from a b d show ?thesis
    by (simp add: script_loaded render_no_missing_file)
qed

text \<open>
  C6, as amended. The loader stops with the missing-file message exactly when nothing is
  cached and the file is absent; the run of the script then shows that message and
  nothing else, and stops, and no other run shows the message. With nothing cached and
  the file present, the loader returns the full dataset when \<open>read_csv\<close> reads the table
  and \<open>to_datetime\<close> converts the date column: as many rows as the file has, the dates
  converted and every other column as in the file, and the process caches it; it raises
  when \<open>read_csv\<close> or \<open>to_datetime\<close> raises. With a dataset cached, the loader returns it
  without looking at the file.
\<close>

theorem load_data_outcomes:
  "(snd (snd (cached_load_data td fs cache)) = Stop \<longleftrightarrow> cache = None \<and> fs = None) \<and>
   (MissingFileError \<in> set (events (snd (script sort_values td fs countries date_range cache)))
      \<longleftrightarrow> cache = None \<and> fs = None) \<and>
   (cache = None \<and> fs = None \<longrightarrow>
      cached_load_data td fs cache = (None, [MissingFileError], Stop) \<and>
      script sort_values td fs countries date_range cache =
        (None, \<lparr>events = [MissingFileError], outcome = Stopped, var_df = None,
                 var_filtered_df = None, var_clean_df = None, var_latest = None\<rparr>)) \<and>
   (\<forall>csv dates. cache = None \<and> fs = Some (Inr csv) \<and> td (map csv_date csv) = Inr dates \<and>
        length dates = length csv \<longrightarrow>
      (\<exists>df. cached_load_data td fs cache = (Some df, [], Return df) \<and>
         length df = length csv \<and>
         map date df = dates \<and>
         map country df = map csv_country csv \<and>
         map total_vaccinations df = map csv_total_vaccinations csv \<and>
         map people_vaccinated df = map csv_people_vaccinated csv \<and>
         map people_fully_vaccinated df = map csv_people_fully_vaccinated csv \<and>
         map daily_vaccinations df = map csv_daily_vaccinations csv)) \<and>
   (\<forall>csv e. cache = None \<and> fs = Some (Inr csv) \<and> td (map csv_date csv) = Inl e \<longrightarrow>
      cached_load_data td fs cache = (None, [], Raise e)) \<and>
   (\<forall>e. cache = None \<and> fs = Some (Inl e) \<longrightarrow>
      cached_load_data td fs cache = (None, [], Raise e)) \<and>
   (\<forall>df. cache = Some df \<longrightarrow> cached_load_data td fs cache = (Some df, [], Return df))"
proof (cases cache)
  case (Some df)
  then show ?thesis
    by (simp add: cached_load_data_hit script_loaded render_no_missing_file)
next
  case None
  note cold = None
  show ?thesis
  proof (cases fs)
    case None
    with cold show ?thesis
      by (simp add: cached_load_data_def load_data_def script_cold)
  next
    case (Some content)
    show ?thesis
    proof (cases content)
      case (Inl e)
      with cold Some show ?thesis
        by (simp add: cached_load_data_def load_data_def script_cold)
    next
      case (Inr csv)
      show ?thesis
      proof (cases "td (map csv_date csv)")
        case (Inl e)
        with cold Some Inr show ?thesis
          by (simp add: cached_load_data_def load_data_def script_cold)
      next
        case dates: (Inr dates)
        define df where "df = map2 with_date csv dates"
        have L: "cached_load_data td (Some (Inr csv)) None = (Some df, [], Return df)"
          by (simp add: cached_load_data_def load_data_def dates df_def)
        have S: "script sort_values td (Some (Inr csv)) countries date_range None =
            (Some df, render sort_values df countries date_range)"
          by (simp add: script_def L)
        have P: "length df = length csv \<and> map date df = dates \<and>
            map country df = map csv_country csv \<and>
            map total_vaccinations df = map csv_total_vaccinations csv \<and>
            map people_vaccinated df = map csv_people_vaccinated csv \<and>
            map people_fully_vaccinated df = map csv_people_fully_vaccinated csv \<and>
            map daily_vaccinations df = map csv_daily_vaccinations csv"
          if "length dates = length csv"
          unfolding df_def using with_date_columns [OF that] by blast
        from P show ?thesis
          unfolding cold Some Inr
          by (simp add: L S dates render_no_missing_file)
      qed
    qed
  qed
qed

theorem load_data_outcomes_witness:
  "cached_load_data to_datetime_scenario None None = (None, [MissingFileError], Stop) \<and>
   to_datetime_scenario (map csv_date scenario_csv) = Inr (map date scenario_df) \<and>
   length (map date scenario_df) = length scenario_csv \<and>
   cached_load_data to_datetime_scenario (Some (Inr scenario_csv)) None =
     (Some scenario_df, [], Return scenario_df) \<and>
   cached_load_data to_datetime_scenario None (Some scenario_df) =
     (Some scenario_df, [], Return scenario_df)"
proof -
  have a: "to_datetime_scenario (map csv_date scenario_csv) = Inr (map date scenario_df)"
    by (simp add: scenario_csv_def scenario_df_def to_datetime_cell_def)
  have l: "length (map date scenario_df) = length scenario_csv"
    by (simp add: scenario_csv_def scenario_df_def)
  from load_data_outcomes [of to_datetime_scenario None None]
  have b: "cached_load_data to_datetime_scenario None None = (None, [MissingFileError], Stop)"
    by blast
  from load_data_outcomes [of to_datetime_scenario "Some (Inr scenario_csv)" None] a l
  obtain df where df: "cached_load_data to_datetime_scenario (Some (Inr scenario_csv)) None =
      (Some df, [], Return df)"
    by blast
  have c: "cached_load_data to_datetime_scenario (Some (Inr scenario_csv)) None =
     (Some scenario_df, [], Return scenario_df)"
    by (simp add: cached_load_data_def load_data_def scenario_csv_def scenario_df_def
        with_date_def to_datetime_cell_def)
  from load_data_outcomes [of to_datetime_scenario None "Some scenario_df"]
  have d: "cached_load_data to_datetime_scenario None (Some scenario_df) =
     (Some scenario_df, [], Return scenario_df)"
    by blast
  from a l b c d df show ?thesis
    by simp
qed

subsection \<open>Runs in one process\<close>










subsection \<open>The scenario\<close>

lemma sorted_pair:
  assumes "sorts_by_date sort_values" and "date a = Some x" and "date b = Some y" and "x < y"
  shows "sort_values [a, b] = [a, b]"
proof -
  from assms(1) have ms: "mset (sort_values [a, b]) = mset [a, b]"
    and so: "sorted_wrt (\<lambda>u v. date_le (date u) (date v)) (sort_values [a, b])"
    by (simp_all add: sorts_by_date_def)
  from ms have "length (sort_values [a, b]) = length [a, b]"
    by (rule mset_eq_length)
  then obtain u v where uv: "sort_values [a, b] = [u, v]"
    by (auto simp add: length_Suc_conv)
  from ms have "set (sort_values [a, b]) = set [a, b]"
    by (rule mset_eq_setD)
  with uv have "(u = a \<and> v = b) \<or> (u = b \<and> v = a)"
    by (auto simp add: doubleton_eq_iff)
  moreover have "\<not> (u = b \<and> v = a)"
    using so assms(2-4) unfolding uv by (auto simp add: date_le_def)
  ultimately show ?thesis
    using uv by simp
qed

text \<open>
  C8. On the three-row dataset with the country A selected and the interval from
  2021-01-01 (day 18628) to 2021-01-02 (day 18629), for every sort by date, the filtered
  view has exactly the two rows of A and \<open>latest\<close> is the single row of A of
  2021-01-02, with \<open>total_vaccinations\<close> 150, \<open>people_vaccinated\<close> 90 and
  \<open>people_fully_vaccinated\<close> 25.
\<close>

theorem scenario_result:
  assumes "sorts_by_date sort_values"
  shows "var_filtered_df (render sort_values scenario_df [''A''] [18628, 18629]) =
           Some [\<lparr>country = ''A'', date = Some 18628, total_vaccinations = Some 100,
                   people_vaccinated = Some 80, people_fully_vaccinated = Some 20,
                   daily_vaccinations = Some 10\<rparr>,
                 \<lparr>country = ''A'', date = Some 18629, total_vaccinations = Some 150,
                   people_vaccinated = Some 90, people_fully_vaccinated = Some 25,
                   daily_vaccinations = Some 50\<rparr>] \<and>
         map_option length (var_filtered_df (render sort_values scenario_df [''A''] [18628, 18629])) =
           Some 2 \<and>
         var_latest (render sort_values scenario_df [''A''] [18628, 18629]) =
           Some [\<lparr>country = ''A'', date = Some 18629, total_vaccinations = Some 150,
                   people_vaccinated = Some 90, people_fully_vaccinated = Some 25,
                   daily_vaccinations = Some 50\<rparr>]"
proof -
  let ?a = "\<lparr>country = ''A'', date = Some 18628, total_vaccinations = Some 100,
                   people_vaccinated = Some 80, people_fully_vaccinated = Some 20,
                   daily_vaccinations = Some 10\<rparr>"
  let ?b = "\<lparr>country = ''A'', date = Some 18629, total_vaccinations = Some 150,
                   people_vaccinated = Some 90, people_fully_vaccinated = Some 25,
                   daily_vaccinations = Some 50\<rparr>"
  have f: "filtered_df scenario_df [''A''] [18628, 18629] = Inr [?a, ?b]"
    by (simp add: filtered_df_pair scenario_df_def isin_def between_def)
  have s: "sort_values [?a, ?b] = [?a, ?b]"
    by (rule sorted_pair [OF assms, of _ 18628 _ 18629]) simp_all
  have l: "latest sort_values [?a, ?b] = [?b]"
    unfolding latest_def s
    by (simp add: groupby_last_def group_keys_def group_last_apply
      group_last_row_def last_valid_simps nan_row_def List.map_filter_simps)
  have ne: "[?a, ?b] \<noteq> []"
    by simp
  from render_nonempty(3,5) [OF f ne, of sort_values] l show ?thesis
    by simp
qed

theorem scenario_result_witness:
  "sorts_by_date stable_sort_values \<and>
   map_option length (var_filtered_df (render stable_sort_values scenario_df [''A''] [18628, 18629])) =
     Some 2 \<and>
   map_option (map (\<lambda>r. (country r, total_vaccinations r, people_vaccinated r,
       people_fully_vaccinated r)))
     (var_latest (render stable_sort_values scenario_df [''A''] [18628, 18629])) =
     Some [(''A'', Some 150, Some 90, Some 25)]"
  using scenario_result [OF sorts_by_date_stable] sorts_by_date_stable
  by simp

subsection \<open>A view without a complete row\<close>

lemma clean_df_empty:
  "(\<forall>r \<in> set filtered. \<not> notna_row (num_cols r)) \<Longrightarrow> clean_df filtered = []"
  by (simp add: clean_df_def dropna_def filter_empty_conv)

lemma first_metric_raises:
  "show_metrics ((label, series_mean []) # rest) = ([], Some ValueError)"
  by (simp add: series_mean_def skipna_def py_int_def)

text \<open>
  C10. When the filtered view is not empty and every row of it has a missing cell in one
  of the four numeric columns, \<open>clean_df\<close> is empty and the run ends in tab 3 with an
  uncaught \<open>ValueError\<close>, raised by \<open>int\<close> on the mean of no value: the last thing
  shown is the table of \<open>describe\<close>, and neither the warning nor the missing-file
  message is shown. The dataset \<open>incomplete_df\<close> has such a view.
\<close>

theorem all_rows_incomplete_raises:
  assumes "filtered_df df countries date_range = Inr filtered"
    and "filtered \<noteq> []"
    and "\<forall>r \<in> set filtered. \<not> notna_row (num_cols r)"
  shows "clean_df filtered = [] \<and>
         var_clean_df (render sort_values df countries date_range) = Some [] \<and>
         outcome (render sort_values df countries date_range) = Uncaught ValueError \<and>
         last (events (render sort_values df countries date_range)) = DescribeTable [] \<and>
         EmptyWarning \<notin> set (events (render sort_values df countries date_range)) \<and>
         MissingFileError \<notin> set (events (render sort_values df countries date_range))"
proof -
  from assms(3) have c: "clean_df filtered = []"
    by (rule clean_df_empty)
  show ?thesis
    using assms(1,2) c
    by (simp add: render_def Let_def first_metric_raises del: show_metrics.simps)
qed

theorem all_rows_incomplete_raises_witness:
  "filtered_df incomplete_df [''A'', ''B''] [18628, 18629] = Inr incomplete_df \<and>
   incomplete_df \<noteq> [] \<and>
   list_all (\<lambda>r. \<not> notna_row (num_cols r)) incomplete_df \<and>
   clean_df incomplete_df = [] \<and>
   outcome (render stable_sort_values incomplete_df [''A'', ''B''] [18628, 18629]) =
     Uncaught ValueError \<and>
   outcome (snd (script stable_sort_values to_datetime_scenario None [''A'', ''B'']
     [18628, 18629] (Some incomplete_df))) = Uncaught ValueError"
proof -
  have a: "filtered_df incomplete_df [''A'', ''B''] [18628, 18629] = Inr incomplete_df"
    by (simp add: filtered_df_pair incomplete_df_def isin_def between_def)
  have b: "incomplete_df \<noteq> []"
    by (simp add: incomplete_df_def)
  have c: "\<forall>r \<in> set incomplete_df. \<not> notna_row (num_cols r)"
    by (simp add: incomplete_df_def notna_row_def num_cols_def)
  from all_rows_incomplete_raises [OF a b c, of stable_sort_values] a b c show ?thesis
    by (simp add: script_loaded list_all_iff)
qed

end
